theory Spec2Isabelle
  imports Complex_Main
begin

section \<open>Floating-point values\<close>

text \<open>
  The analytics code of \<^verbatim>\<open>backend/app/libs/price_stats.py\<close> computes on
  64-bit floats through numpy and pandas.  A value is modelled as an extended real:
  a finite value carries an exact real number (no rounding, no overflow, no signed
  zero), and the three special values \<open>+inf\<close>, \<open>-inf\<close> and not-a-number follow the
  IEEE-754 rules that numpy applies (it warns, it never raises).  Finite arithmetic is
  therefore exact here where binary64 rounds.  The theorems below are about the special
  values, the exceptions and the order of the steps; none of them states a numeric
  identity that holds in exact arithmetic only.
\<close>

datatype float64 = Fin real | PInf | NInf | NaN

fun is_nan :: "float64 \<Rightarrow> bool" where
  "is_nan NaN = True"
| "is_nan _ = False"

fun is_finite :: "float64 \<Rightarrow> bool" where
  "is_finite (Fin _) = True"
| "is_finite _ = False"

fun fneg :: "float64 \<Rightarrow> float64" where
  "fneg (Fin a) = Fin (- a)"
| "fneg PInf = NInf"
| "fneg NInf = PInf"
| "fneg NaN = NaN"

fun fadd :: "float64 \<Rightarrow> float64 \<Rightarrow> float64" where
  "fadd (Fin a) (Fin b) = Fin (a + b)"
| "fadd (Fin a) PInf = PInf"
| "fadd (Fin a) NInf = NInf"
| "fadd PInf (Fin b) = PInf"
| "fadd PInf PInf = PInf"
| "fadd NInf (Fin b) = NInf"
| "fadd NInf NInf = NInf"
| "fadd PInf NInf = NaN"
| "fadd NInf PInf = NaN"
| "fadd NaN y = NaN"
| "fadd x NaN = NaN"

definition fsub :: "float64 \<Rightarrow> float64 \<Rightarrow> float64" where
  "fsub x y = fadd x (fneg y)"

text \<open>The sign of an infinite product or quotient; a zero factor gives not-a-number.\<close>

definition signed_inf :: "bool \<Rightarrow> float64" where
  "signed_inf positive = (if positive then PInf else NInf)"

fun fmul :: "float64 \<Rightarrow> float64 \<Rightarrow> float64" where
  "fmul (Fin a) (Fin b) = Fin (a * b)"
| "fmul (Fin a) PInf = (if a = 0 then NaN else signed_inf (0 < a))"
| "fmul (Fin a) NInf = (if a = 0 then NaN else signed_inf (a < 0))"
| "fmul PInf (Fin b) = (if b = 0 then NaN else signed_inf (0 < b))"
| "fmul NInf (Fin b) = (if b = 0 then NaN else signed_inf (b < 0))"
| "fmul PInf PInf = PInf"
| "fmul PInf NInf = NInf"
| "fmul NInf PInf = NInf"
| "fmul NInf NInf = PInf"
| "fmul NaN y = NaN"
| "fmul x NaN = NaN"

fun fdiv :: "float64 \<Rightarrow> float64 \<Rightarrow> float64" where
  "fdiv (Fin a) (Fin b) =
     (if b = 0 then (if a = 0 then NaN else signed_inf (0 < a)) else Fin (a / b))"
| "fdiv (Fin a) PInf = Fin 0"
| "fdiv (Fin a) NInf = Fin 0"
| "fdiv PInf (Fin b) = signed_inf (0 \<le> b)"
| "fdiv NInf (Fin b) = signed_inf (b < 0)"
| "fdiv PInf PInf = NaN"
| "fdiv PInf NInf = NaN"
| "fdiv NInf PInf = NaN"
| "fdiv NInf NInf = NaN"
| "fdiv NaN y = NaN"
| "fdiv x NaN = NaN"

text \<open>\<^verbatim>\<open>np.log\<close>: the logarithm of zero is \<open>-inf\<close>, of a negative number not-a-number.\<close>

fun flog :: "float64 \<Rightarrow> float64" where
  "flog (Fin a) = (if a < 0 then NaN else if a = 0 then NInf else Fin (ln a))"
| "flog PInf = PInf"
| "flog NInf = NaN"
| "flog NaN = NaN"

text \<open>\<^verbatim>\<open>np.sqrt\<close>: the root of a negative number is not-a-number.\<close>

fun fsqrt :: "float64 \<Rightarrow> float64" where
  "fsqrt (Fin a) = (if a < 0 then NaN else Fin (sqrt a))"
| "fsqrt PInf = PInf"
| "fsqrt NInf = NaN"
| "fsqrt NaN = NaN"

text \<open>\<^verbatim>\<open>np.sum\<close> of a vector; the sum of no element is \<open>0.0\<close>.\<close>

definition np_sum :: "float64 list \<Rightarrow> float64" where
  "np_sum xs = foldr fadd xs (Fin 0)"

text \<open>
  \<^verbatim>\<open>math.isclose(a, b, rel_tol=r)\<close> with the default \<^verbatim>\<open>abs_tol=0.0\<close>: equal values
  are close (also two infinities of one sign), an infinity is close to nothing else, and
  every comparison with not-a-number is false.
\<close>

fun isclose :: "float64 \<Rightarrow> float64 \<Rightarrow> real \<Rightarrow> bool" where
  "isclose (Fin a) (Fin b) rel_tol =
     (a = b \<or> \<bar>b - a\<bar> \<le> \<bar>rel_tol * b\<bar> \<or> \<bar>b - a\<bar> \<le> \<bar>rel_tol * a\<bar> \<or> \<bar>b - a\<bar> \<le> 0)"
| "isclose PInf PInf rel_tol = True"
| "isclose NInf NInf rel_tol = True"
| "isclose _ _ rel_tol = False"

section \<open>Time Series Returns Builder\<close>

text \<open>
  A price series is a list of (timestamp, value) entries in index order.  The frame
  that \<^verbatim>\<open>make_returns_df\<close> returns has the price column, \<^verbatim>\<open>returns\<close> and
  \<^verbatim>\<open>std_dev\<close>, indexed by timestamp: one row per entry.
\<close>

record hist_row =
  timestamp :: int
  price :: float64
  returns :: float64
  std_dev :: float64

type_synonym dataframe = "hist_row list"

definition ROLLING_WINDOW_DAYS :: nat where
  "ROLLING_WINDOW_DAYS = 7"

text \<open>\<^verbatim>\<open>Series.shift(periods=1)\<close>: every value moves one position down, the first is missing.\<close>

definition shift :: "float64 list \<Rightarrow> float64 list" where
  "shift xs = take (length xs) (NaN # xs)"

text \<open>\<^verbatim>\<open>Series.replace(old, new)\<close> on a float column; not-a-number matches not-a-number.\<close>

definition replace_value :: "float64 \<Rightarrow> float64 \<Rightarrow> float64 list \<Rightarrow> float64 list" where
  "replace_value old new xs = map (\<lambda>x. if x = old then new else x) xs"

text \<open>\<^verbatim>\<open>returns.iloc[1:].replace(old, new, inplace=True)\<close>: position 0 is outside the slice.\<close>

definition replace_value_from_1 :: "float64 \<Rightarrow> float64 \<Rightarrow> float64 list \<Rightarrow> float64 list" where
  "replace_value_from_1 old new xs = take 1 xs @ replace_value old new (drop 1 xs)"

text \<open>
  \<^verbatim>\<open>rolling(window).std(ddof=0)\<close>: the window ending at position \<open>t\<close> holds the
  positions \<open>t - window + 1 .. t\<close> that exist; missing and infinite entries are no
  observations; with fewer observations than \<open>min_periods\<close> (the window size, by
  default) the result is not-a-number.  On a full window the value is written as the
  population standard deviation of the observations in exact arithmetic; pandas
  obtains it by an online update in binary64, which this does not reproduce, and only
  the positions that are not-a-number are used below.
\<close>

definition observations :: "float64 list \<Rightarrow> real list" where
  "observations xs = concat (map (\<lambda>x. case x of Fin a \<Rightarrow> [a] | _ \<Rightarrow> []) xs)"

definition mean :: "real list \<Rightarrow> real" where
  "mean vs = sum_list vs / real (length vs)"

definition population_std :: "real list \<Rightarrow> real" where
  "population_std vs = sqrt (sum_list (map (\<lambda>v. (v - mean vs)\<^sup>2) vs) / real (length vs))"

definition window_at :: "nat \<Rightarrow> float64 list \<Rightarrow> nat \<Rightarrow> float64 list" where
  "window_at w xs t = drop (Suc t - w) (take (Suc t) xs)"

definition rolling_std :: "nat \<Rightarrow> float64 list \<Rightarrow> float64 list" where
  "rolling_std w xs =
     map (\<lambda>t. let obs = observations (window_at w xs t)
              in if length obs < w then NaN else Fin (population_std obs))
       [0..<length xs]"

definition log_returns :: "float64 list \<Rightarrow> float64 list" where
  "log_returns prices = map flog (map2 fdiv prices (shift prices))"

definition returns_column :: "float64 list \<Rightarrow> float64 list" where
  "returns_column prices =
     replace_value_from_1 NaN (Fin 0)
       (replace_value NInf (Fin 0) (replace_value PInf (Fin 0) (log_returns prices)))"

definition make_returns_df :: "(int \<times> float64) list \<Rightarrow> string \<Rightarrow> dataframe" where
  "make_returns_df hist_values column_name =
     (let prices = map snd hist_values;
          rets = returns_column prices;
          devs = rolling_std ROLLING_WINDOW_DAYS rets
      in map (\<lambda>i. \<lparr>timestamp = fst (hist_values ! i), price = prices ! i,
                     returns = rets ! i, std_dev = devs ! i\<rparr>)
           [0..<length hist_values])"

section \<open>Treasury snapshot\<close>

text \<open>
  Modelled from the spec: the \<^verbatim>\<open>Treasury\<close> class of \<^verbatim>\<open>backend/app/libs/types.py\<close>
  is imported by \<^verbatim>\<open>price_stats.py\<close> and its declaration is missing.  The spec gives it a
  set of Asset records (symbol, USD balance, a mutable \<^verbatim>\<open>risk_contribution\<close>), a
  \<^verbatim>\<open>usd_total\<close>, and a lookup \<^verbatim>\<open>get_asset(symbol)\<close> that fails when the symbol is
  absent; \<^verbatim>\<open>make_returns_matrix\<close> catches that failure as \<^verbatim>\<open>StopIteration\<close>, the
  exception of \<^verbatim>\<open>next\<close> on an exhausted generator, so the lookup gives the first asset
  with the symbol.  \<open>None\<close> stands for the raised \<^verbatim>\<open>StopIteration\<close>.
\<close>

record asset =
  token_symbol :: string
  balance :: float64
  risk_contribution :: "float64 option"

record treasury =
  assets :: "asset list"
  usd_total :: float64

definition get_asset :: "treasury \<Rightarrow> string \<Rightarrow> asset option" where
  "get_asset t symbol = find (\<lambda>a. token_symbol a = symbol) (assets t)"

text \<open>
  The exceptions the functions below can raise, under their Python names:
  \<^verbatim>\<open>IndexError\<close> (the seed of the reduction on an empty mapping; the spec's
  \<^verbatim>\<open>EmptyInputError\<close>), \<^verbatim>\<open>KeyError\<close> (a symbol without a balance, the spec's
  \<^verbatim>\<open>MissingAssetError\<close>; also a dropped column that is not there),
  \<^verbatim>\<open>ValueError\<close> (a merge on an ambiguous key), \<^verbatim>\<open>AssertionError\<close> (the
  reconciliation of the decomposition; the spec's \<^verbatim>\<open>RiskDecompositionInvariantError\<close>)
  and \<^verbatim>\<open>StopIteration\<close> (an asset lookup that misses; the spec's
  \<^verbatim>\<open>NotFoundError\<close>).  The code raises no exception for a division by zero.
\<close>

datatype error = IndexError | KeyError | ValueError | AssertionError | StopIteration

section \<open>Returns Matrix Aligner\<close>

text \<open>
  The asset mapping \<^verbatim>\<open>augmented_token_hist_prices\<close> is a dict from a symbol to the
  frame that \<^verbatim>\<open>make_returns_df\<close> made for it, indexed by \<^verbatim>\<open>timestamp\<close>: a list of
  (symbol, frame) pairs in insertion order, whose symbols are distinct.  Timestamps and
  the bounds of the window are integers (a day number, or seconds), compared as the
  dates are.

  A frame keyed by timestamp, as the join builds it: the labels of its value columns,
  and one entry per row with the timestamp and the values in column order.
\<close>

record frame =
  columns :: "string list"
  rows :: "(int \<times> float64 list) list"

text \<open>\<^verbatim>\<open>hist_prices.sort_index().loc[start:end].reset_index()\<close>\<close>

definition sort_index :: "dataframe \<Rightarrow> dataframe" where
  "sort_index df = sort_key timestamp df"

definition loc_range :: "int \<Rightarrow> int \<Rightarrow> dataframe \<Rightarrow> dataframe" where
  "loc_range start end df = filter (\<lambda>r. start \<le> timestamp r \<and> timestamp r \<le> end) df"

definition hist_prices_items ::
  "(string \<times> dataframe) list \<Rightarrow> int \<Rightarrow> int \<Rightarrow> (string \<times> dataframe) list" where
  "hist_prices_items augmented_token_hist_prices start end =
     map (\<lambda>(symbol, hist_prices). (symbol, loc_range start end (sort_index hist_prices)))
       augmented_token_hist_prices"

text \<open>
  \<^verbatim>\<open>matrix.merge(right, on="timestamp")\<close> with a right frame of the columns
  \<^verbatim>\<open>timestamp\<close> and \<open>label\<close>: an inner join that keeps the order of the left rows.
  A value column of the left frame with the same label is renamed with the suffix
  \<^verbatim>\<open>_x\<close> and the new column with \<^verbatim>\<open>_y\<close>; a right frame whose value column is
  itself labelled \<^verbatim>\<open>timestamp\<close> has an ambiguous key, a \<^verbatim>\<open>ValueError\<close>.
\<close>

definition merge_on_timestamp ::
  "frame \<Rightarrow> string \<Rightarrow> (int \<times> float64) list \<Rightarrow> error + frame" where
  "merge_on_timestamp matrix label right =
     (if label = ''timestamp'' then Inl ValueError
      else Inr \<lparr>columns =
                  map (\<lambda>c. if c = label then c @ ''_x'' else c) (columns matrix) @
                  [if label \<in> set (columns matrix) then label @ ''_y'' else label],
                rows =
                  concat (map (\<lambda>(ts, vs).
                      map (\<lambda>(ts', v). (ts, vs @ [v])) (filter (\<lambda>(ts', v). ts' = ts) right))
                    (rows matrix))\<rparr>)"

text \<open>\<^verbatim>\<open>hist_prices[["timestamp", "returns"]]\<close>\<close>

definition timestamp_and_returns :: "dataframe \<Rightarrow> (int \<times> float64) list" where
  "timestamp_and_returns hist_prices = map (\<lambda>r. (timestamp r, returns r)) hist_prices"

definition reducer_on_symbol_and_hist_prices ::
  "frame \<Rightarrow> string \<times> dataframe \<Rightarrow> error + frame" where
  "reducer_on_symbol_and_hist_prices matrix symbol_and_hist_prices =
     (case symbol_and_hist_prices of (symbol, hist_prices) \<Rightarrow>
        merge_on_timestamp matrix symbol (timestamp_and_returns hist_prices))"

text \<open>\<^verbatim>\<open>functools.reduce\<close>, stopping at the first exception.\<close>

fun reduce :: "frame \<Rightarrow> (string \<times> dataframe) list \<Rightarrow> error + frame" where
  "reduce matrix [] = Inr matrix"
| "reduce matrix (item # items) =
     (case reducer_on_symbol_and_hist_prices matrix item of
        Inl e \<Rightarrow> Inl e
      | Inr matrix' \<Rightarrow> reduce matrix' items)"

text \<open>
  \<^verbatim>\<open>frame.drop(label, axis=1)\<close>: every column with the label goes; a label that no
  column has is a \<^verbatim>\<open>KeyError\<close>.
\<close>

definition drop_column :: "string \<Rightarrow> frame \<Rightarrow> error + frame" where
  "drop_column label f =
     (if label \<in> set (columns f)
      then Inr \<lparr>columns = filter (\<lambda>c. c \<noteq> label) (columns f),
                rows = map (\<lambda>(ts, vs).
                    (ts, map snd (filter (\<lambda>(c, v). c \<noteq> label) (zip (columns f) vs))))
                  (rows f)\<rparr>
      else Inl KeyError)"

text \<open>
  The seed of the reduction, \<^verbatim>\<open>hist_prices_items[0][1][["timestamp", "returns"]]\<close>; its
  \<^verbatim>\<open>rename(columns={"return": ...})\<close> names a column that does not exist and renames
  nothing.  On an empty list the subscript \<^verbatim>\<open>[0]\<close> raises.
\<close>

definition seed :: "(string \<times> dataframe) list \<Rightarrow> error + frame" where
  "seed items =
     (case items of
        [] \<Rightarrow> Inl IndexError
      | (symbol, hist_prices) # _ \<Rightarrow>
          Inr \<lparr>columns = [''returns''],
               rows = map (\<lambda>(ts, v). (ts, [v])) (timestamp_and_returns hist_prices)\<rparr>)"

text \<open>
  \<^verbatim>\<open>make_returns_matrix\<close>: the reduction runs over every item, the first included,
  from the seed; \<^verbatim>\<open>.drop("returns", axis=1)\<close> then removes the seed's own column, and
  \<^verbatim>\<open>.set_index("timestamp")\<close> changes nothing here, where the timestamp is the key of
  a row.  When \<^verbatim>\<open>treasury.get_asset("ETH")\<close> raises \<^verbatim>\<open>StopIteration\<close> the handler
  drops the column \<^verbatim>\<open>ETH\<close>.
\<close>

definition make_returns_matrix ::
  "treasury \<Rightarrow> (string \<times> dataframe) list \<Rightarrow> int \<Rightarrow> int \<Rightarrow> error + frame" where
  "make_returns_matrix treasury augmented_token_hist_prices start end =
     (let items = hist_prices_items augmented_token_hist_prices start end in
      case seed items of
        Inl e \<Rightarrow> Inl e
      | Inr initial \<Rightarrow>
          (case reduce initial items of
             Inl e \<Rightarrow> Inl e
           | Inr joined \<Rightarrow>
               (case drop_column ''returns'' joined of
                  Inl e \<Rightarrow> Inl e
                | Inr returns_matrix \<Rightarrow>
                    (case get_asset treasury ''ETH'' of
                       Some _ \<Rightarrow> Inr returns_matrix
                     | None \<Rightarrow> drop_column ''ETH'' returns_matrix))))"

text \<open>
  A frame is rectangular when each row has one value per column.  Every frame of the
  pipeline is (see \<open>make_returns_matrix_rectangular\<close>), so the reads \<open>vs ! j\<close> of
  \<open>column_values\<close> below are in range.
\<close>

definition rectangular :: "frame \<Rightarrow> bool" where
  "rectangular f = list_all (\<lambda>row. length (snd row) = length (columns f)) (rows f)"

section \<open>Risk Decomposition Engine\<close>

text \<open>
  \<^verbatim>\<open>DataFrame.cov()\<close>, the pairwise sample covariance of the columns.  A frame without
  a missing value goes through \<^verbatim>\<open>np.cov(mat.T, ddof=1)\<close>: every column is centred on
  its mean and the products are summed and scaled by \<open>1 / (N - 1)\<close>, with the factor
  \<open>N - 1\<close> set to \<open>0.0\<close> when it is not positive.  A frame with a missing value is
  handled pair by pair, on the rows where both columns are finite: fewer than one such
  row, or a divisor \<open>nobs - 1\<close> of zero, gives not-a-number.
\<close>

definition column_values :: "frame \<Rightarrow> nat \<Rightarrow> float64 list" where
  "column_values f j = map (\<lambda>(ts, vs). vs ! j) (rows f)"

definition np_cov :: "nat \<Rightarrow> float64 list list \<Rightarrow> float64 list list" where
  "np_cov N X =
     (let centred = map (\<lambda>x. map (\<lambda>v. fsub v (fdiv (np_sum x) (Fin (real N)))) x) X;
          fact = (if real N - 1 \<le> 0 then 0 else real N - 1)
      in map (\<lambda>xi. map (\<lambda>xj. fmul (np_sum (map2 fmul xi xj)) (fdiv (Fin 1) (Fin fact)))
                    centred)
           centred)"

definition pair_observations :: "float64 list \<Rightarrow> float64 list \<Rightarrow> (real \<times> real) list" where
  "pair_observations xs ys =
     concat (map (\<lambda>(x, y). case (x, y) of (Fin a, Fin b) \<Rightarrow> [(a, b)] | _ \<Rightarrow> []) (zip xs ys))"

definition nancorr_cov :: "float64 list \<Rightarrow> float64 list \<Rightarrow> float64" where
  "nancorr_cov xs ys =
     (let obs = pair_observations xs ys; nobs = length obs
      in if nobs < 1 then NaN
         else if real nobs - 1 \<noteq> 0
         then Fin (sum_list (map (\<lambda>(a, b). (a - mean (map fst obs)) * (b - mean (map snd obs)))
                      obs) / (real nobs - 1))
         else NaN)"

definition cov :: "frame \<Rightarrow> float64 list list" where
  "cov f =
     (let X = map (column_values f) [0..<length (columns f)]
      in if list_all (list_all (\<lambda>v. \<not> is_nan v)) X
         then np_cov (length (rows f)) X
         else map (\<lambda>xi. map (\<lambda>xj. nancorr_cov xi xj) X) X)"

text \<open>
  \<^verbatim>\<open>current_balances\<close> is a dict comprehension over the assets: a later asset with
  the same symbol overwrites an earlier one.  The weights read it for every column of
  the matrix, in column order; a symbol it does not have is a \<^verbatim>\<open>KeyError\<close>.
  The division by \<^verbatim>\<open>usd_total\<close> is numpy's: dividing by zero gives an infinity
  or not-a-number, never an exception.
\<close>

definition current_balances :: "treasury \<Rightarrow> (string \<rightharpoonup> float64)" where
  "current_balances t = map_of (rev (map (\<lambda>a. (token_symbol a, balance a)) (assets t)))"

fun balances_of :: "(string \<rightharpoonup> float64) \<Rightarrow> string list \<Rightarrow> error + float64 list" where
  "balances_of b [] = Inr []"
| "balances_of b (symbol # symbols) =
     (case b symbol of
        None \<Rightarrow> Inl KeyError
      | Some v \<Rightarrow>
          (case balances_of b symbols of
             Inl e \<Rightarrow> Inl e
           | Inr vs \<Rightarrow> Inr (v # vs)))"

definition weights :: "treasury \<Rightarrow> frame \<Rightarrow> error + float64 list" where
  "weights t returns_matrix =
     (case balances_of (current_balances t) (columns returns_matrix) of
        Inl e \<Rightarrow> Inl e
      | Inr bs \<Rightarrow> Inr (map (\<lambda>b. fdiv b (usd_total t)) bs))"

text \<open>The products \<^verbatim>\<open>weights.dot(cov_matrix)\<close> and \<^verbatim>\<open>(...).dot(weights.T)\<close>.\<close>

definition dot :: "float64 list \<Rightarrow> float64 list \<Rightarrow> float64" where
  "dot xs ys = np_sum (map2 fmul xs ys)"

definition vec_mat :: "float64 list \<Rightarrow> float64 list list \<Rightarrow> float64 list" where
  "vec_mat w M = map (\<lambda>j. dot w (map (\<lambda>row. row ! j) M)) [0..<length w]"

definition portfolio_std_dev :: "float64 list \<Rightarrow> float64 list list \<Rightarrow> float64" where
  "portfolio_std_dev w cov_matrix = fsqrt (dot (vec_mat w cov_matrix) w)"

definition marginal_contributions :: "float64 list \<Rightarrow> float64 list list \<Rightarrow> float64 list" where
  "marginal_contributions w cov_matrix =
     map (\<lambda>x. fdiv x (portfolio_std_dev w cov_matrix)) (vec_mat w cov_matrix)"

definition component_contributions :: "float64 list \<Rightarrow> float64 list list \<Rightarrow> float64 list" where
  "component_contributions w cov_matrix = map2 fmul (marginal_contributions w cov_matrix) w"

definition summed_component_contributions :: "float64 list \<Rightarrow> float64 list list \<Rightarrow> float64" where
  "summed_component_contributions w cov_matrix = np_sum (component_contributions w cov_matrix)"

definition component_percentages :: "float64 list \<Rightarrow> float64 list list \<Rightarrow> float64 list" where
  "component_percentages w cov_matrix =
     map (\<lambda>c. fdiv c (portfolio_std_dev w cov_matrix)) (component_contributions w cov_matrix)"

text \<open>
  The final loop: \<^verbatim>\<open>treasury.get_asset(symbol).risk_contribution = percentage\<close>
  writes into the first asset with the symbol.  The treasury is mutated in place, so a
  call is modelled by the state of the treasury after it and the exception it raised,
  if any.
\<close>

fun set_risk_contribution :: "string \<Rightarrow> float64 \<Rightarrow> asset list \<Rightarrow> asset list" where
  "set_risk_contribution symbol percentage [] = []"
| "set_risk_contribution symbol percentage (a # rest) =
     (if token_symbol a = symbol then a\<lparr>risk_contribution := Some percentage\<rparr> # rest
      else a # set_risk_contribution symbol percentage rest)"

fun assign_percentages :: "treasury \<Rightarrow> (string \<times> float64) list \<Rightarrow> treasury \<times> error option" where
  "assign_percentages t [] = (t, None)"
| "assign_percentages t ((symbol, percentage) # rest) =
     (case get_asset t symbol of
        None \<Rightarrow> (t, Some StopIteration)
      | Some _ \<Rightarrow>
          assign_percentages (t\<lparr>assets := set_risk_contribution symbol percentage (assets t)\<rparr>)
            rest)"

definition fill_asset_risk_contributions ::
  "treasury \<Rightarrow> (string \<times> dataframe) list \<Rightarrow> int \<Rightarrow> int \<Rightarrow> treasury \<times> error option" where
  "fill_asset_risk_contributions treasury augmented_token_hist_prices start end =
     (case make_returns_matrix treasury augmented_token_hist_prices start end of
        Inl e \<Rightarrow> (treasury, Some e)
      | Inr returns_matrix \<Rightarrow>
          (case weights treasury returns_matrix of
             Inl e \<Rightarrow> (treasury, Some e)
           | Inr w \<Rightarrow>
               (let cov_matrix = cov returns_matrix in
                if isclose (summed_component_contributions w cov_matrix)
                     (portfolio_std_dev w cov_matrix) (1 / 10000)
                then assign_percentages treasury
                       (zip (columns returns_matrix) (component_percentages w cov_matrix))
                else (treasury, Some AssertionError))))"


section \<open>Evaluation on concrete inputs\<close>

lemmas matrix_eval =
  make_returns_matrix_def hist_prices_items_def sort_index_def loc_range_def seed_def
  timestamp_and_returns_def reducer_on_symbol_and_hist_prices_def merge_on_timestamp_def
  drop_column_def get_asset_def

lemmas risk_eval =
  fill_asset_risk_contributions_def weights_def current_balances_def cov_def column_values_def
  np_cov_def np_sum_def fsub_def summed_component_contributions_def component_contributions_def
  marginal_contributions_def portfolio_std_dev_def vec_mat_def dot_def component_percentages_def
  signed_inf_def

section \<open>The Returns Matrix Aligner: failures\<close>

text \<open>
  C5: \<^verbatim>\<open>make_returns_matrix\<close> on an empty asset mapping fails, for every treasury and
  window: the seed of the reduction is \<^verbatim>\<open>hist_prices_items[0]\<close>, and the subscript on
  the empty list raises (Python's \<^verbatim>\<open>IndexError\<close>, the empty-input error of the spec).
\<close>

theorem make_returns_matrix_empty_mapping:
  "make_returns_matrix treasury [] start end = Inl IndexError"
  by (simp add: make_returns_matrix_def hist_prices_items_def seed_def)

theorem make_returns_matrix_empty_mapping_witness:
  "make_returns_matrix \<lparr>assets = [], usd_total = Fin 1\<rparr> [] 1 3 = Inl IndexError"
  using make_returns_matrix_empty_mapping [of "\<lparr>assets = [], usd_total = Fin 1\<rparr>" 1 3]
  by simp

lemma suffix_not_ETH: "c @ ''_x'' \<noteq> ''ETH''" "c @ ''_y'' \<noteq> ''ETH''"
proof -
  have "last (c @ ''_x'') \<noteq> last ''ETH''" by simp
  then show "c @ ''_x'' \<noteq> ''ETH''" by metis
  have "last (c @ ''_y'') \<noteq> last ''ETH''" by simp
  then show "c @ ''_y'' \<noteq> ''ETH''" by metis
qed

lemma merge_no_ETH:
  assumes "merge_on_timestamp matrix label right = Inr matrix'"
    and "''ETH'' \<notin> set (columns matrix)" and "label \<noteq> ''ETH''"
  shows "''ETH'' \<notin> set (columns matrix')"
  using assms
  by (auto simp: merge_on_timestamp_def suffix_not_ETH split: if_splits)

lemma reduce_no_ETH:
  "reduce matrix items = Inr joined \<Longrightarrow> ''ETH'' \<notin> set (columns matrix) \<Longrightarrow>
   ''ETH'' \<notin> fst ` set items \<Longrightarrow> ''ETH'' \<notin> set (columns joined)"
proof (induction items arbitrary: matrix)
  case Nil
  then show ?case by simp
next
  case (Cons item items)
  obtain symbol hist where item: "item = (symbol, hist)" by (cases item)
  from Cons.prems(1) obtain matrix' where
    m: "merge_on_timestamp matrix symbol (timestamp_and_returns hist) = Inr matrix'" and
    r: "reduce matrix' items = Inr joined"
    by (auto simp: item reducer_on_symbol_and_hist_prices_def split: sum.splits)
  have "''ETH'' \<notin> set (columns matrix')"
    using merge_no_ETH [OF m Cons.prems(2)] Cons.prems(3) by (auto simp: item)
  then show ?case using Cons.IH [OF r] Cons.prems(3) by simp
qed

lemma drop_column_subset:
  "drop_column label f = Inr f' \<Longrightarrow> set (columns f') \<subseteq> set (columns f)"
  by (auto simp: drop_column_def split: if_splits)

lemma hist_prices_items_symbols:
  "map fst (hist_prices_items m start end) = map fst m"
  by (induction m) (auto simp: hist_prices_items_def)

lemma seed_columns: "seed items = Inr f \<Longrightarrow> columns f = [''returns'']"
  by (auto simp: seed_def split: list.splits)

lemma seed_error: "seed items = Inl e \<Longrightarrow> e = IndexError \<and> items = []"
  by (auto simp: seed_def split: list.splits)

lemma reduce_error:
  "reduce matrix items = Inl e \<Longrightarrow> e = ValueError \<and> ''timestamp'' \<in> fst ` set items"
proof (induction items arbitrary: matrix)
  case Nil
  then show ?case by simp
next
  case (Cons item items)
  obtain symbol hist where item: "item = (symbol, hist)" by (cases item)
  show ?case
  proof (cases "merge_on_timestamp matrix symbol (timestamp_and_returns hist)")
    case (Inl e')
    then have "e' = ValueError" "symbol = ''timestamp''"
      by (auto simp: merge_on_timestamp_def split: if_splits)
    then show ?thesis
      using Cons.prems Inl by (simp add: item reducer_on_symbol_and_hist_prices_def)
  next
    case (Inr matrix')
    then have "reduce matrix' items = Inl e"
      using Cons.prems by (simp add: item reducer_on_symbol_and_hist_prices_def)
    from Cons.IH [OF this] show ?thesis by simp
  qed
qed

lemma drop_column_error: "drop_column label f = Inl e \<Longrightarrow> e = KeyError"
  by (auto simp: drop_column_def split: if_splits)

lemma make_returns_matrix_error:
  assumes "make_returns_matrix treasury augmented_token_hist_prices start end = Inl e"
  shows "(e = IndexError \<and> augmented_token_hist_prices = []) \<or>
         (e = ValueError \<and> ''timestamp'' \<in> fst ` set augmented_token_hist_prices) \<or>
         e = KeyError"
proof -
  let ?items = "hist_prices_items augmented_token_hist_prices start end"
  have sym: "fst ` set ?items = fst ` set augmented_token_hist_prices"
    using hist_prices_items_symbols [of augmented_token_hist_prices start "end"]
    by (metis set_map)
  have empty: "?items = [] \<longleftrightarrow> augmented_token_hist_prices = []"
    by (simp add: hist_prices_items_def)
  show ?thesis
  proof (cases "seed ?items")
    case (Inl e')
    then show ?thesis
      using assms seed_error [OF Inl] empty by (simp add: make_returns_matrix_def)
  next
    case s: (Inr initial)
    show ?thesis
    proof (cases "reduce initial ?items")
      case (Inl e')
      then show ?thesis
        using assms reduce_error [OF Inl] sym s by (simp add: make_returns_matrix_def)
    next
      case r: (Inr joined)
      show ?thesis
      proof (cases "drop_column ''returns'' joined")
        case (Inl e')
        then show ?thesis
          using assms drop_column_error [OF Inl] s r by (simp add: make_returns_matrix_def)
      next
        case d: (Inr returns_matrix)
        then have "drop_column ''ETH'' returns_matrix = Inl e"
          using assms s r by (auto simp: make_returns_matrix_def split: option.splits)
        then show ?thesis using drop_column_error by blast
      qed
    qed
  qed
qed

text \<open>
  C10: when the treasury has no asset \<^verbatim>\<open>ETH\<close> and \<^verbatim>\<open>ETH\<close> is not a key of the asset
  mapping, \<^verbatim>\<open>make_returns_matrix\<close> fails with an exception: the lookup misses, the
  handler drops the column \<^verbatim>\<open>ETH\<close> whether or not the joined matrix has one, and the
  drop of a column that is not there raises.  On a mapping that is not empty and has no
  key \<^verbatim>\<open>timestamp\<close> the exception is the \<^verbatim>\<open>KeyError\<close> of a drop.
\<close>

theorem make_returns_matrix_fails_without_ETH:
  assumes "get_asset treasury ''ETH'' = None"
    and "''ETH'' \<notin> fst ` set augmented_token_hist_prices"
  shows "(\<exists>e. make_returns_matrix treasury augmented_token_hist_prices start end = Inl e) \<and>
         (augmented_token_hist_prices \<noteq> [] \<and>
          ''timestamp'' \<notin> fst ` set augmented_token_hist_prices \<longrightarrow>
          make_returns_matrix treasury augmented_token_hist_prices start end = Inl KeyError)"
proof (cases "make_returns_matrix treasury augmented_token_hist_prices start end")
  case (Inl e)
  then show ?thesis using make_returns_matrix_error [OF Inl] by auto
next
  case (Inr rm)
  let ?items = "hist_prices_items augmented_token_hist_prices start end"
  from Inr obtain initial joined returns_matrix where
    s: "seed ?items = Inr initial" and
    r: "reduce initial ?items = Inr joined" and
    d: "drop_column ''returns'' joined = Inr returns_matrix" and
    e: "drop_column ''ETH'' returns_matrix = Inr rm"
    using assms(1)
    by (auto simp: make_returns_matrix_def Let_def split: sum.splits option.splits)
  have "fst ` set ?items = fst ` set augmented_token_hist_prices"
    using hist_prices_items_symbols [of augmented_token_hist_prices start "end"]
    by (metis set_map)
  then have "''ETH'' \<notin> fst ` set ?items" using assms(2) by simp
  moreover have "''ETH'' \<notin> set (columns initial)" using seed_columns [OF s] by simp
  ultimately have "''ETH'' \<notin> set (columns joined)" using reduce_no_ETH [OF r] by blast
  then have "''ETH'' \<notin> set (columns returns_matrix)" using drop_column_subset [OF d] by blast
  then have "drop_column ''ETH'' returns_matrix = Inl KeyError" by (simp add: drop_column_def)
  with e show ?thesis by simp
qed

theorem make_returns_matrix_fails_without_ETH_witness:
  "get_asset
     \<lparr>assets = [\<lparr>token_symbol = ''USDC'', balance = Fin 1, risk_contribution = None\<rparr>],
      usd_total = Fin 1\<rparr> ''ETH'' = None \<and>
   ''ETH'' \<notin> fst ` set
     [(''USDC'', [\<lparr>timestamp = 1, price = Fin 1, returns = NaN, std_dev = NaN\<rparr>,
                 \<lparr>timestamp = 2, price = Fin 1, returns = Fin 0, std_dev = NaN\<rparr>])] \<and>
   make_returns_matrix
     \<lparr>assets = [\<lparr>token_symbol = ''USDC'', balance = Fin 1, risk_contribution = None\<rparr>],
      usd_total = Fin 1\<rparr>
     [(''USDC'', [\<lparr>timestamp = 1, price = Fin 1, returns = NaN, std_dev = NaN\<rparr>,
                 \<lparr>timestamp = 2, price = Fin 1, returns = Fin 0, std_dev = NaN\<rparr>])]
     1 2 = Inl KeyError"
  using make_returns_matrix_fails_without_ETH
    [of "\<lparr>assets = [\<lparr>token_symbol = ''USDC'', balance = Fin 1, risk_contribution = None\<rparr>],
          usd_total = Fin 1\<rparr>"
        "[(''USDC'', [\<lparr>timestamp = 1, price = Fin 1, returns = NaN, std_dev = NaN\<rparr>,
                     \<lparr>timestamp = 2, price = Fin 1, returns = Fin 0, std_dev = NaN\<rparr>])]"
        1 2]
  by (simp add: matrix_eval)

section \<open>The Risk Decomposition Engine: failures\<close>

lemma balances_of_missing:
  "symbol \<in> set symbols \<Longrightarrow> b symbol = None \<Longrightarrow> balances_of b symbols = Inl KeyError"
proof (induction symbols)
  case Nil
  then show ?case by simp
next
  case (Cons s ss)
  show ?case
  proof (cases "b s")
    case None
    then show ?thesis by simp
  next
    case (Some v)
    then have "symbol \<noteq> s" using Cons.prems(2) by auto
    then have "balances_of b ss = Inl KeyError" using Cons by simp
    then show ?thesis by (simp add: Some)
  qed
qed

lemma current_balances_None:
  "current_balances t symbol = None \<longleftrightarrow> symbol \<notin> token_symbol ` set (assets t)"
  by (simp add: current_balances_def map_of_eq_None_iff image_image)

text \<open>
  C8: if a column symbol of the Returns Matrix has no asset in the treasury,
  \<^verbatim>\<open>fill_asset_risk_contributions\<close> fails while it builds the weight vector: the read
  \<^verbatim>\<open>current_balances[symbol]\<close> raises (Python's \<^verbatim>\<open>KeyError\<close>, the missing-asset error
  of the spec), and the treasury is as it was: no \<^verbatim>\<open>risk_contribution\<close> is assigned.
\<close>

theorem fill_asset_risk_contributions_missing_asset:
  assumes "make_returns_matrix treasury augmented_token_hist_prices start end = Inr returns_matrix"
    and "symbol \<in> set (columns returns_matrix)"
    and "symbol \<notin> token_symbol ` set (assets treasury)"
  shows "fill_asset_risk_contributions treasury augmented_token_hist_prices start end =
         (treasury, Some KeyError)"
proof -
  have "current_balances treasury symbol = None"
    using assms(3) by (simp add: current_balances_None)
  then have "weights treasury returns_matrix = Inl KeyError"
    using balances_of_missing [OF assms(2)] by (simp add: weights_def)
  then show ?thesis by (simp add: fill_asset_risk_contributions_def assms(1))
qed

theorem fill_asset_risk_contributions_missing_asset_witness:
  "fill_asset_risk_contributions
     \<lparr>assets = [\<lparr>token_symbol = ''ETH'', balance = Fin 1, risk_contribution = None\<rparr>],
      usd_total = Fin 1\<rparr>
     [(''ETH'', [\<lparr>timestamp = 2, price = Fin 1, returns = Fin 0, std_dev = NaN\<rparr>,
                \<lparr>timestamp = 1, price = Fin 1, returns = Fin (- 1), std_dev = NaN\<rparr>,
                \<lparr>timestamp = 3, price = Fin 1, returns = Fin 1, std_dev = NaN\<rparr>]),
      (''DAI'', [\<lparr>timestamp = 1, price = Fin 1, returns = Fin 0, std_dev = NaN\<rparr>,
                \<lparr>timestamp = 2, price = Fin 1, returns = Fin 0, std_dev = NaN\<rparr>,
                \<lparr>timestamp = 3, price = Fin 1, returns = Fin 0, std_dev = NaN\<rparr>])]
     1 3 =
   (\<lparr>assets = [\<lparr>token_symbol = ''ETH'', balance = Fin 1, risk_contribution = None\<rparr>],
     usd_total = Fin 1\<rparr>, Some KeyError)"
proof -
  have m: "make_returns_matrix
     \<lparr>assets = [\<lparr>token_symbol = ''ETH'', balance = Fin 1, risk_contribution = None\<rparr>],
      usd_total = Fin 1\<rparr>
     [(''ETH'', [\<lparr>timestamp = 2, price = Fin 1, returns = Fin 0, std_dev = NaN\<rparr>,
                \<lparr>timestamp = 1, price = Fin 1, returns = Fin (- 1), std_dev = NaN\<rparr>,
                \<lparr>timestamp = 3, price = Fin 1, returns = Fin 1, std_dev = NaN\<rparr>]),
      (''DAI'', [\<lparr>timestamp = 1, price = Fin 1, returns = Fin 0, std_dev = NaN\<rparr>,
                \<lparr>timestamp = 2, price = Fin 1, returns = Fin 0, std_dev = NaN\<rparr>,
                \<lparr>timestamp = 3, price = Fin 1, returns = Fin 0, std_dev = NaN\<rparr>])]
     1 3 = Inr \<lparr>columns = [''ETH'', ''DAI''],
        rows = [(1, [Fin (- 1), Fin 0]), (2, [Fin 0, Fin 0]), (3, [Fin 1, Fin 0])]\<rparr>"
    by (simp add: matrix_eval)
  show ?thesis
    by (rule fill_asset_risk_contributions_missing_asset [OF m, of "''DAI''"]) simp_all
qed

text \<open>
  C2: if the sum of the component contributions is not within the relative tolerance
  \<open>1e-4\<close> of the portfolio volatility, \<^verbatim>\<open>fill_asset_risk_contributions\<close> aborts at its
  assertion (Python's \<^verbatim>\<open>AssertionError\<close>, the invariant error of the spec) and the
  treasury is as it was: no \<^verbatim>\<open>risk_contribution\<close> is assigned.  A call that returns
  has passed the check.
\<close>

theorem fill_asset_risk_contributions_invariant_check:
  "(make_returns_matrix treasury augmented_token_hist_prices start end = Inr returns_matrix \<and>
    weights treasury returns_matrix = Inr w \<and>
    \<not> isclose (summed_component_contributions w (cov returns_matrix))
        (portfolio_std_dev w (cov returns_matrix)) (1 / 10000) \<longrightarrow>
    fill_asset_risk_contributions treasury augmented_token_hist_prices start end =
      (treasury, Some AssertionError)) \<and>
   (snd (fill_asset_risk_contributions treasury augmented_token_hist_prices start end) = None \<longrightarrow>
     (\<exists>rm w'. make_returns_matrix treasury augmented_token_hist_prices start end = Inr rm \<and>
        weights treasury rm = Inr w' \<and>
        isclose (summed_component_contributions w' (cov rm))
          (portfolio_std_dev w' (cov rm)) (1 / 10000)))"
  by (auto simp: fill_asset_risk_contributions_def Let_def split: sum.splits if_splits)

theorem fill_asset_risk_contributions_invariant_check_witness:
  "fill_asset_risk_contributions
     \<lparr>assets = [\<lparr>token_symbol = ''ETH'', balance = Fin 1, risk_contribution = None\<rparr>],
      usd_total = Fin 1\<rparr>
     [(''ETH'', [\<lparr>timestamp = 1, price = Fin 1, returns = Fin 0, std_dev = NaN\<rparr>,
                \<lparr>timestamp = 2, price = Fin 1, returns = Fin 0, std_dev = NaN\<rparr>,
                \<lparr>timestamp = 3, price = Fin 1, returns = Fin 0, std_dev = NaN\<rparr>])]
     1 3 =
   (\<lparr>assets = [\<lparr>token_symbol = ''ETH'', balance = Fin 1, risk_contribution = None\<rparr>],
     usd_total = Fin 1\<rparr>, Some AssertionError) \<and>
   (\<exists>rm w. make_returns_matrix
       \<lparr>assets = [\<lparr>token_symbol = ''ETH'', balance = Fin 1, risk_contribution = None\<rparr>],
        usd_total = Fin 1\<rparr>
       [(''ETH'', [\<lparr>timestamp = 1, price = Fin 1, returns = Fin (- 1), std_dev = NaN\<rparr>,
                  \<lparr>timestamp = 2, price = Fin 1, returns = Fin 0, std_dev = NaN\<rparr>,
                  \<lparr>timestamp = 3, price = Fin 1, returns = Fin 1, std_dev = NaN\<rparr>])]
       1 3 = Inr rm \<and>
      weights
        \<lparr>assets = [\<lparr>token_symbol = ''ETH'', balance = Fin 1, risk_contribution = None\<rparr>],
         usd_total = Fin 1\<rparr> rm = Inr w \<and>
      isclose (summed_component_contributions w (cov rm)) (portfolio_std_dev w (cov rm))
        (1 / 10000))"
proof -
  let ?t = "\<lparr>assets = [\<lparr>token_symbol = ''ETH'', balance = Fin 1, risk_contribution = None\<rparr>],
             usd_total = Fin 1\<rparr>"
  let ?flat = "[(''ETH'', [\<lparr>timestamp = 1, price = Fin 1, returns = Fin 0, std_dev = NaN\<rparr>,
                \<lparr>timestamp = 2, price = Fin 1, returns = Fin 0, std_dev = NaN\<rparr>,
                \<lparr>timestamp = 3, price = Fin 1, returns = Fin 0, std_dev = NaN\<rparr>])]"
  let ?moving = "[(''ETH'', [\<lparr>timestamp = 1, price = Fin 1, returns = Fin (- 1), std_dev = NaN\<rparr>,
                  \<lparr>timestamp = 2, price = Fin 1, returns = Fin 0, std_dev = NaN\<rparr>,
                  \<lparr>timestamp = 3, price = Fin 1, returns = Fin 1, std_dev = NaN\<rparr>])]"
  let ?rm = "\<lparr>columns = [''ETH''], rows = [(1, [Fin 0]), (2, [Fin 0]), (3, [Fin 0])]\<rparr>"
  have m: "make_returns_matrix ?t ?flat 1 3 = Inr ?rm"
    by (simp add: matrix_eval)
  have w: "weights ?t ?rm = Inr [Fin 1]"
    by (simp add: risk_eval)
  have c: "\<not> isclose (summed_component_contributions [Fin 1] (cov ?rm))
        (portfolio_std_dev [Fin 1] (cov ?rm)) (1 / 10000)"
    by (simp add: risk_eval)
  have ok: "snd (fill_asset_risk_contributions ?t ?moving 1 3) = None"
    by (simp add: matrix_eval risk_eval)
  from fill_asset_risk_contributions_invariant_check [of ?t ?flat 1 3 ?rm "[Fin 1]"] m w c
  have "fill_asset_risk_contributions ?t ?flat 1 3 = (?t, Some AssertionError)" by blast
  moreover from fill_asset_risk_contributions_invariant_check [of ?t ?moving 1 3] ok
  have "\<exists>rm w. make_returns_matrix ?t ?moving 1 3 = Inr rm \<and> weights ?t rm = Inr w \<and>
      isclose (summed_component_contributions w (cov rm)) (portfolio_std_dev w (cov rm))
        (1 / 10000)" by blast
  ultimately show ?thesis by blast
qed

section \<open>The Time Series Returns Builder: edge cases\<close>

lemma fadd_NaN_right [simp]: "fadd x NaN = NaN" by (cases x) simp_all
lemma fmul_NaN_right [simp]: "fmul x NaN = NaN" by (cases x) simp_all
lemma fdiv_NaN_right [simp]: "fdiv x NaN = NaN" by (cases x) simp_all

lemma length_shift: "length (shift xs) = length xs"
  by (simp add: shift_def)

lemma shift_nth: "i < length xs \<Longrightarrow> shift xs ! i = (if i = 0 then NaN else xs ! (i - 1))"
  by (cases i) (simp_all add: shift_def)

lemma length_log_returns: "length (log_returns prices) = length prices"
  by (simp add: log_returns_def length_shift)

lemma log_returns_nth:
  "i < length prices \<Longrightarrow>
   log_returns prices ! i = (if i = 0 then NaN else flog (fdiv (prices ! i) (prices ! (i - 1))))"
  by (simp add: log_returns_def length_shift shift_nth)

lemma length_returns_column: "length (returns_column prices) = length prices"
proof -
  have "length (returns_column prices) = length (log_returns prices)"
    by (cases "log_returns prices")
       (simp_all add: returns_column_def replace_value_from_1_def replace_value_def)
  then show ?thesis by (simp add: length_log_returns)
qed

lemma returns_column_nth:
  assumes "i < length prices"
  shows "returns_column prices ! i =
     (if i = 0 then NaN
      else if is_finite (flog (fdiv (prices ! i) (prices ! (i - 1))))
           then flog (fdiv (prices ! i) (prices ! (i - 1))) else Fin 0)"
proof -
  let ?raw = "log_returns prices"
  let ?noinf = "replace_value NInf (Fin 0) (replace_value PInf (Fin 0) ?raw)"
  have len: "length ?noinf = length prices"
    by (simp add: replace_value_def length_log_returns)
  have noinf: "?noinf ! i = (if ?raw ! i = PInf \<or> ?raw ! i = NInf then Fin 0 else ?raw ! i)"
    using assms by (simp add: replace_value_def length_log_returns)
  show ?thesis
  proof (cases i)
    case 0
    then have "returns_column prices ! i = ?noinf ! 0"
      using assms len by (simp add: returns_column_def replace_value_from_1_def nth_append)
    then show ?thesis using 0 noinf assms by (simp add: log_returns_nth)
  next
    case (Suc j)
    then have "returns_column prices ! i = replace_value NaN (Fin 0) (drop 1 ?noinf) ! j"
      using assms len by (simp add: returns_column_def replace_value_from_1_def nth_append)
    also have "\<dots> = (if ?noinf ! i = NaN then Fin 0 else ?noinf ! i)"
      using assms len Suc by (simp add: replace_value_def)
    finally show ?thesis
      using Suc noinf assms
      by (cases "flog (fdiv (prices ! i) (prices ! (i - 1)))") (simp_all add: log_returns_nth)
  qed
qed

lemma length_make_returns_df: "length (make_returns_df hist_values column_name) = length hist_values"
  by (simp add: make_returns_df_def Let_def)

lemma make_returns_df_returns:
  "i < length hist_values \<Longrightarrow>
   returns (make_returns_df hist_values column_name ! i) = returns_column (map snd hist_values) ! i"
  by (simp add: make_returns_df_def Let_def)

text \<open>
  C6: in the \<^verbatim>\<open>returns\<close> column of \<^verbatim>\<open>make_returns_df\<close>, for every price series: the
  value at position 0 is not-a-number; at a position \<open>i \<ge> 1\<close> a ratio or a log-return
  that is \<open>+inf\<close> or \<open>-inf\<close> gives \<open>0\<close>, a log-return that is not-a-number gives \<open>0\<close>,
  and a finite log-return \<open>ln (price[i] / price[i-1])\<close> is kept.
\<close>

theorem make_returns_df_returns_edge_cases:
  assumes "i < length hist_values"
  shows "let r = returns (make_returns_df hist_values column_name ! i);
             ratio = fdiv (snd (hist_values ! i)) (snd (hist_values ! (i - 1)))
         in (i = 0 \<longrightarrow> r = NaN) \<and>
            (0 < i \<and> (ratio = PInf \<or> ratio = NInf) \<longrightarrow> r = Fin 0) \<and>
            (0 < i \<and> (flog ratio = PInf \<or> flog ratio = NInf) \<longrightarrow> r = Fin 0) \<and>
            (0 < i \<and> flog ratio = NaN \<longrightarrow> r = Fin 0) \<and>
            (0 < i \<and> is_finite (flog ratio) \<longrightarrow> r = flog ratio)"
proof -
  have "returns (make_returns_df hist_values column_name ! i) =
     (if i = 0 then NaN
      else if is_finite (flog (fdiv (snd (hist_values ! i)) (snd (hist_values ! (i - 1)))))
           then flog (fdiv (snd (hist_values ! i)) (snd (hist_values ! (i - 1)))) else Fin 0)"
    using assms returns_column_nth [of i "map snd hist_values"]
    by (simp add: make_returns_df_returns)
  then show ?thesis by (auto simp: Let_def)
qed


theorem make_returns_df_returns_edge_cases_witness:
  "map returns (make_returns_df [(1, Fin 1), (2, Fin 0), (3, Fin 0), (4, Fin 2), (5, Fin 4)] ''price'')
   = [NaN, Fin 0, Fin 0, Fin 0, Fin (ln 2)]"
proof -
  let ?hv = "[(1, Fin 1), (2, Fin 0), (3, Fin 0), (4, Fin 2), (5, Fin 4)] :: (int \<times> float64) list"
  let ?df = "make_returns_df ?hv ''price''"
  have "returns (?df ! 0) = NaN"
    using make_returns_df_returns_edge_cases [of 0 ?hv "''price''"] by (simp add: Let_def)
  moreover have "returns (?df ! 1) = Fin 0"
    using make_returns_df_returns_edge_cases [of 1 ?hv "''price''"] by (simp add: Let_def)
  moreover have "returns (?df ! 2) = Fin 0"
    using make_returns_df_returns_edge_cases [of 2 ?hv "''price''"] by (simp add: Let_def)
  moreover have "returns (?df ! 3) = Fin 0"
    using make_returns_df_returns_edge_cases [of 3 ?hv "''price''"]
    by (simp add: Let_def signed_inf_def)
  moreover have "returns (?df ! 4) = Fin (ln 2)"
    using make_returns_df_returns_edge_cases [of 4 ?hv "''price''"] by (simp add: Let_def)
  moreover have "length ?df = 5" by (simp add: length_make_returns_df)
  ultimately show ?thesis
    by (intro nth_equalityI) (auto simp: less_Suc_eq numeral_eq_Suc)
qed

lemma length_observations: "length (observations xs) \<le> length xs"
  by (induction xs) (auto simp: observations_def split: float64.splits)

lemma observations_NaN: "observations (NaN # xs) = observations xs"
  by (simp add: observations_def)

lemma rolling_std_nth:
  "t < length xs \<Longrightarrow>
   rolling_std w xs ! t =
     (let obs = observations (window_at w xs t)
      in if length obs < w then NaN else Fin (population_std obs))"
  by (simp add: rolling_std_def)

lemma make_returns_df_std_dev_nth:
  "t < length hist_values \<Longrightarrow>
   std_dev (make_returns_df hist_values column_name ! t) =
     rolling_std 7 (returns_column (map snd hist_values)) ! t"
  by (simp add: make_returns_df_def Let_def ROLLING_WINDOW_DAYS_def)

text \<open>
  The first seven positions of \<^verbatim>\<open>std_dev\<close> are not-a-number: the windows ending at
  the positions 0 to 5 are short, and the window ending at position 6 holds the
  not-a-number of position 0, so each has fewer than \<open>min_periods = 7\<close> observations.
\<close>

lemma make_returns_df_std_dev_undefined:
  assumes "t < length hist_values" and "t < 7"
  shows "std_dev (make_returns_df hist_values column_name ! t) = NaN"
proof -
  let ?rets = "returns_column (map snd hist_values)"
  have t: "t < length ?rets" using assms(1) by (simp add: length_returns_column)
  have sd: "std_dev (make_returns_df hist_values column_name ! t) =
      (let obs = observations (window_at 7 ?rets t)
       in if length obs < 7 then NaN else Fin (population_std obs))"
    using assms(1) t by (simp add: make_returns_df_std_dev_nth rolling_std_nth)
  have "window_at 7 ?rets t = take (Suc t) ?rets"
    using assms(2) by (simp add: window_at_def)
  moreover have "?rets ! 0 = NaN"
  proof -
    have "0 < length (map snd hist_values)" using assms(1) by (cases hist_values) simp_all
    then show ?thesis using returns_column_nth [of 0 "map snd hist_values"] by simp
  qed
  then have "take (Suc t) ?rets = NaN # take t (tl ?rets)"
    using t by (cases ?rets) simp_all
  ultimately have "observations (window_at 7 ?rets t) = observations (take t (tl ?rets))"
    by (simp add: observations_NaN)
  moreover have "length (observations (take t (tl ?rets))) \<le> t"
    using length_observations [of "take t (tl ?rets)"] by simp
  ultimately have "length (observations (window_at 7 ?rets t)) < 7" using assms(2) by simp
  then show ?thesis using sd by (simp add: Let_def)
qed

section \<open>The Risk Decomposition Engine: percentages\<close>

lemma np_sum_Nil [simp]: "np_sum [] = Fin 0"
  by (simp add: np_sum_def)

lemma np_sum_Cons [simp]: "np_sum (x # xs) = fadd x (np_sum xs)"
  by (simp add: np_sum_def)

lemma fadd_finite: "is_finite (fadd x y) \<longleftrightarrow> is_finite x \<and> is_finite y"
  by (cases x; cases y) simp_all

lemma fmul_finite: "is_finite (fmul x y) \<longleftrightarrow> is_finite x \<and> is_finite y"
  by (cases x; cases y) (simp_all add: signed_inf_def)

lemma fdiv_zero_not_finite: "\<not> is_finite (fdiv x (Fin 0))"
  by (cases x) (simp_all add: signed_inf_def)

text \<open>
  With a portfolio volatility of \<open>+inf\<close> every component contribution is zero or
  not-a-number, over the pairs of an entry of \<^verbatim>\<open>weights.dot(cov_matrix)\<close> and its
  weight.
\<close>

lemma components_infinite_volatility:
  "np_sum (map (\<lambda>p. fmul (fdiv (fst p) PInf) (snd p)) ps) = Fin 0 \<or> np_sum (map (\<lambda>p. fmul (fdiv (fst p) PInf) (snd p)) ps) = NaN"
proof (induction ps)
  case Nil
  then show ?case by simp
next
  case (Cons p ps)
  obtain x y where p: "p = (x, y)" by (cases p)
  have "fmul (fdiv (fst p) PInf) (snd p) = Fin 0 \<or> fmul (fdiv (fst p) PInf) (snd p) = NaN"
    by (cases x; cases y) (simp_all add: p)
  with Cons show ?case by auto
qed

lemma length_vec_mat: "length (vec_mat w M) = length w"
  by (simp add: vec_mat_def)











text \<open>The assignment loop writes each percentage into the asset of its column.\<close>

lemma set_risk_contribution_symbols:
  "map token_symbol (set_risk_contribution symbol p as) = map token_symbol as"
  by (induction as) simp_all


lemma get_asset_None: "get_asset t s = None \<longleftrightarrow> s \<notin> token_symbol ` set (assets t)"
  by (auto simp: get_asset_def find_None_iff)

lemma assign_percentages_symbols:
  "map token_symbol (assets (fst (assign_percentages t zs))) = map token_symbol (assets t)"
proof (induction zs arbitrary: t)
  case Nil
  then show ?case by simp
next
  case (Cons z zs)
  obtain s p where z: "z = (s, p)" by (cases z)
  show ?case
    by (cases "get_asset t s") (simp_all add: z Cons.IH set_risk_contribution_symbols)
qed



lemma balances_of_Inr:
  "balances_of b symbols = Inr vs \<Longrightarrow>
   length vs = length symbols \<and> (\<forall>s \<in> set symbols. b s \<noteq> None)"
proof (induction symbols arbitrary: vs)
  case Nil
  then show ?case by simp
next
  case (Cons s ss)
  then show ?case by (auto split: option.splits sum.splits)
qed

lemma weights_Inr:
  assumes "weights t rm = Inr w"
  shows "length w = length (columns rm)"
    and "\<forall>s \<in> set (columns rm). get_asset t s \<noteq> None"
proof -
  from assms obtain bs where bs: "balances_of (current_balances t) (columns rm) = Inr bs"
    and w: "w = map (\<lambda>b. fdiv b (usd_total t)) bs"
    by (auto simp: weights_def split: sum.splits)
  from balances_of_Inr [OF bs] show "length w = length (columns rm)" by (simp add: w)
  from balances_of_Inr [OF bs] show "\<forall>s \<in> set (columns rm). get_asset t s \<noteq> None"
    by (simp add: current_balances_None get_asset_None)
qed





section \<open>The Risk Decomposition Engine: the total of the treasury\<close>

lemma np_sum_not_finite:
  "xs \<noteq> [] \<Longrightarrow> \<forall>x \<in> set xs. \<not> is_finite x \<Longrightarrow> \<not> is_finite (np_sum xs)"
  by (cases xs) (simp_all add: fadd_finite)

lemma dot_not_finite:
  assumes "xs \<noteq> []" "ys \<noteq> []" "\<forall>x \<in> set xs. \<not> is_finite x"
  shows "\<not> is_finite (dot xs ys)"
proof -
  have "\<forall>z \<in> set (map2 fmul xs ys). \<not> is_finite z"
    using assms(3) by (auto simp: fmul_finite dest: set_zip_leftD)
  moreover have "map2 fmul xs ys \<noteq> []" using assms(1,2) by (cases xs; cases ys) simp_all
  ultimately show ?thesis unfolding dot_def by (rule np_sum_not_finite [rotated])
qed

lemma isclose_NaN_right: "\<not> isclose x NaN tol"
  by (cases x) simp_all

lemma fsqrt_not_finite: "\<not> is_finite x \<Longrightarrow> fsqrt x = PInf \<or> fsqrt x = NaN"
  by (cases x) simp_all

lemma infinite_weights_not_close:
  assumes "w \<noteq> []" and "\<forall>x \<in> set w. \<not> is_finite x" and "length M = length w"
  shows "\<not> isclose (summed_component_contributions w M) (portfolio_std_dev w M) tol"
proof -
  let ?v = "vec_mat w M"
  have M: "M \<noteq> []" using assms(1,3) by auto
  have "\<not> is_finite (dot w (map (\<lambda>row. row ! j) M))" for j
    using assms(1,2) M by (intro dot_not_finite) simp_all
  then have "\<forall>x \<in> set ?v. \<not> is_finite x"
    by (auto simp: vec_mat_def)
  moreover have "?v \<noteq> []" using assms(1) length_vec_mat [of w M] by auto
  ultimately have "\<not> is_finite (dot ?v w)" using assms(1) by (intro dot_not_finite)
  then have sd: "portfolio_std_dev w M = PInf \<or> portfolio_std_dev w M = NaN"
    unfolding portfolio_std_dev_def by (rule fsqrt_not_finite)
  have comp: "component_contributions w M =
      map (\<lambda>p. fmul (fdiv (fst p) (portfolio_std_dev w M)) (snd p)) (zip ?v w)"
    by (simp add: component_contributions_def marginal_contributions_def zip_map1 case_prod_unfold)
  from sd show ?thesis
  proof
    assume inf: "portfolio_std_dev w M = PInf"
    then show ?thesis
      using components_infinite_volatility [of "zip ?v w"]
      by (auto simp: summed_component_contributions_def comp)
  next
    assume "portfolio_std_dev w M = NaN"
    then show ?thesis by (simp add: isclose_NaN_right)
  qed
qed

lemma length_cov: "length (cov rm) = length (columns rm)"
  by (simp add: cov_def np_cov_def Let_def)

lemma balances_of_present:
  "\<forall>s \<in> set symbols. b s \<noteq> None \<Longrightarrow> \<exists>vs. balances_of b symbols = Inr vs"
  by (induction symbols) auto

lemma zero_total_aborts:
  assumes zero: "usd_total treasury = Fin 0"
    and rm: "make_returns_matrix treasury augmented_token_hist_prices start end = Inr rm"
    and cols: "columns rm \<noteq> []"
    and present: "\<forall>c \<in> set (columns rm). c \<in> token_symbol ` set (assets treasury)"
  shows "fill_asset_risk_contributions treasury augmented_token_hist_prices start end =
         (treasury, Some AssertionError)"
proof -
  from present obtain bs where bs: "balances_of (current_balances treasury) (columns rm) = Inr bs"
    using balances_of_present [of "columns rm" "current_balances treasury"]
    by (auto simp: current_balances_None)
  let ?w = "map (\<lambda>b. fdiv b (Fin 0)) bs"
  have w: "weights treasury rm = Inr ?w" by (simp add: weights_def bs zero)
  have len: "length ?w = length (columns rm)" using weights_Inr(1) [OF w] .
  have "\<not> isclose (summed_component_contributions ?w (cov rm))
      (portfolio_std_dev ?w (cov rm)) (1 / 10000)"
  proof (rule infinite_weights_not_close)
    show "?w \<noteq> []" using len cols by auto
    show "\<forall>x \<in> set ?w. \<not> is_finite x" by (simp add: fdiv_zero_not_finite)
    show "length (cov rm) = length ?w" using len by (simp add: length_cov)
  qed
  then show ?thesis by (simp add: fill_asset_risk_contributions_def rm w)
qed

text \<open>A total of the opposite sign negates every weight and nothing else.\<close>

lemma fneg_fneg [simp]: "fneg (fneg x) = x"
  by (cases x) simp_all

lemma fneg_signed_inf: "fneg (signed_inf b) = signed_inf (\<not> b)"
  by (simp add: signed_inf_def)

lemma fneg_fadd: "fadd (fneg x) (fneg y) = fneg (fadd x y)"
  by (cases x; cases y) simp_all

lemma fmul_fneg_left: "fmul (fneg x) y = fneg (fmul x y)"
  by (cases x; cases y) (auto simp: signed_inf_def)

lemma fmul_fneg_right: "fmul x (fneg y) = fneg (fmul x y)"
  by (cases x; cases y) (auto simp: signed_inf_def)

lemma fdiv_fneg_left: "fdiv (fneg x) y = fneg (fdiv x y)"
  by (cases x; cases y) (auto simp: signed_inf_def)

lemma fdiv_negated_total: "u \<noteq> 0 \<Longrightarrow> fdiv x (Fin (- u)) = fneg (fdiv x (Fin u))"
  by (cases x) (auto simp: signed_inf_def)

lemma np_sum_fneg: "np_sum (map fneg xs) = fneg (np_sum xs)"
  by (induction xs) (simp_all add: fneg_fadd)

lemma dot_fneg_left: "dot (map fneg xs) ys = fneg (dot xs ys)"
proof -
  have "map2 fmul (map fneg xs) ys = map fneg (map2 fmul xs ys)"
    by (simp add: zip_map1 case_prod_unfold fmul_fneg_left)
  then show ?thesis unfolding dot_def by (simp only: np_sum_fneg)
qed

lemma dot_fneg_right: "dot xs (map fneg ys) = fneg (dot xs ys)"
proof -
  have "map2 fmul xs (map fneg ys) = map fneg (map2 fmul xs ys)"
    by (simp add: zip_map2 case_prod_unfold fmul_fneg_right)
  then show ?thesis unfolding dot_def by (simp only: np_sum_fneg)
qed

lemma vec_mat_fneg: "vec_mat (map fneg w) M = map fneg (vec_mat w M)"
  by (simp add: vec_mat_def dot_fneg_left)

lemma portfolio_std_dev_fneg: "portfolio_std_dev (map fneg w) M = portfolio_std_dev w M"
  by (simp add: portfolio_std_dev_def vec_mat_fneg dot_fneg_left dot_fneg_right)

lemma component_contributions_fneg:
  "component_contributions (map fneg w) M = component_contributions w M"
  by (simp add: component_contributions_def marginal_contributions_def portfolio_std_dev_fneg
      vec_mat_fneg zip_map1 zip_map2 case_prod_unfold fdiv_fneg_left fmul_fneg_left
      fmul_fneg_right)

lemma summed_component_contributions_fneg:
  "summed_component_contributions (map fneg w) M = summed_component_contributions w M"
  by (simp add: summed_component_contributions_def component_contributions_fneg)

lemma component_percentages_fneg:
  "component_percentages (map fneg w) M = component_percentages w M"
  by (simp add: component_percentages_def component_contributions_fneg portfolio_std_dev_fneg)

lemma make_returns_matrix_usd_total:
  "make_returns_matrix (t\<lparr>usd_total := x\<rparr>) m start end = make_returns_matrix t m start end"
proof -
  have "get_asset (t\<lparr>usd_total := x\<rparr>) = get_asset t"
    by (rule ext) (simp add: get_asset_def)
  then show ?thesis unfolding make_returns_matrix_def by (simp only:)
qed

lemma weights_negated_total:
  assumes "usd_total t = Fin u" and "u \<noteq> 0"
  shows "weights (t\<lparr>usd_total := Fin (- u)\<rparr>) rm =
     (case weights t rm of Inl e \<Rightarrow> Inl e | Inr w \<Rightarrow> Inr (map fneg w))"
  using assms
  by (simp add: weights_def current_balances_def fdiv_negated_total split: sum.splits)

lemma assign_percentages_usd_total:
  "assign_percentages (t\<lparr>usd_total := x\<rparr>) zs =
     (case assign_percentages t zs of (t', r) \<Rightarrow> (t'\<lparr>usd_total := x\<rparr>, r))"
proof (induction zs arbitrary: t)
  case Nil
  then show ?case by simp
next
  case (Cons z zs)
  obtain s p where z: "z = (s, p)" by (cases z)
  have g: "get_asset (t\<lparr>usd_total := x\<rparr>) s = get_asset t s" by (simp add: get_asset_def)
  show ?case
  proof (cases "get_asset t s")
    case None
    then show ?thesis by (simp add: z g)
  next
    case (Some a)
    have swap: "t\<lparr>usd_total := x, assets := set_risk_contribution s p (assets t)\<rparr> =
          t\<lparr>assets := set_risk_contribution s p (assets t), usd_total := x\<rparr>"
      by (cases t) simp
    have "assign_percentages (t\<lparr>usd_total := x\<rparr>) (z # zs) =
        assign_percentages (t\<lparr>assets := set_risk_contribution s p (assets t), usd_total := x\<rparr>) zs"
      by (simp add: z g Some swap)
    also have "\<dots> = (case assign_percentages (t\<lparr>assets := set_risk_contribution s p (assets t)\<rparr>) zs
        of (t', r) \<Rightarrow> (t'\<lparr>usd_total := x\<rparr>, r))"
      by (rule Cons.IH)
    also have "\<dots> = (case assign_percentages t (z # zs) of (t', r) \<Rightarrow> (t'\<lparr>usd_total := x\<rparr>, r))"
      by (simp add: z Some)
    finally show ?thesis .
  qed
qed

lemma negated_total_same_result:
  assumes "usd_total treasury = Fin u" and "u \<noteq> 0"
  shows "fill_asset_risk_contributions (treasury\<lparr>usd_total := Fin (- u)\<rparr>)
           augmented_token_hist_prices start end =
         (case fill_asset_risk_contributions treasury augmented_token_hist_prices start end of
            (treasury', raised) \<Rightarrow> (treasury'\<lparr>usd_total := Fin (- u)\<rparr>, raised))"
proof (cases "make_returns_matrix treasury augmented_token_hist_prices start end")
  case (Inl e)
  then show ?thesis
    by (simp add: fill_asset_risk_contributions_def make_returns_matrix_usd_total)
next
  case (Inr rm)
  show ?thesis
  proof (cases "weights treasury rm")
    case (Inl e)
    then show ?thesis
      using weights_negated_total [OF assms, of rm]
      by (simp add: fill_asset_risk_contributions_def make_returns_matrix_usd_total Inr)
  next
    case w: (Inr w)
    have w': "weights (treasury\<lparr>usd_total := Fin (- u)\<rparr>) rm = Inr (map fneg w)"
      using weights_negated_total [OF assms, of rm] by (simp add: w)
    show ?thesis
      by (simp add: fill_asset_risk_contributions_def make_returns_matrix_usd_total Inr w w'
          Let_def summed_component_contributions_fneg component_percentages_fneg
          portfolio_std_dev_fneg assign_percentages_usd_total)
  qed
qed


text \<open>
  C9 (amended): \<^verbatim>\<open>fill_asset_risk_contributions\<close> has no check of \<^verbatim>\<open>usd_total\<close>; the
  weights are the balances divided by it, whatever it is.  When it is zero, the matrix
  has a column and every column has a balance, every weight is infinite or
  not-a-number and the run aborts at the invariant assertion
  (\<^verbatim>\<open>AssertionError\<close>), after the weights, the covariance and the contributions have
  been computed.  When it is negative the call does what it does for the positive total
  of the same magnitude: only the \<^verbatim>\<open>usd_total\<close> of the treasury differs.
\<close>

theorem fill_asset_risk_contributions_no_usd_total_guard:
  "(usd_total treasury = Fin 0 \<and>
    make_returns_matrix treasury augmented_token_hist_prices start end = Inr rm \<and>
    columns rm \<noteq> [] \<and>
    (\<forall>c \<in> set (columns rm). c \<in> token_symbol ` set (assets treasury)) \<longrightarrow>
    fill_asset_risk_contributions treasury augmented_token_hist_prices start end =
      (treasury, Some AssertionError)) \<and>
   (usd_total treasury = Fin u \<and> 0 < u \<longrightarrow>
    fill_asset_risk_contributions (treasury\<lparr>usd_total := Fin (- u)\<rparr>)
        augmented_token_hist_prices start end =
      (case fill_asset_risk_contributions treasury augmented_token_hist_prices start end of
         (treasury', raised) \<Rightarrow> (treasury'\<lparr>usd_total := Fin (- u)\<rparr>, raised)))"
  using zero_total_aborts [of treasury augmented_token_hist_prices start "end" rm]
    negated_total_same_result [of treasury u augmented_token_hist_prices start "end"]
  by auto

text \<open>
  C9 as stated fails on a negative \<^verbatim>\<open>usd_total\<close>: the call is not rejected, it
  returns with the percentages assigned.
\<close>

theorem fill_asset_risk_contributions_negative_total_counterexample:
  "fill_asset_risk_contributions
     \<lparr>assets = [\<lparr>token_symbol = ''ETH'', balance = Fin 50, risk_contribution = None\<rparr>,
                \<lparr>token_symbol = ''DAI'', balance = Fin 50, risk_contribution = None\<rparr>],
      usd_total = Fin (- 100)\<rparr>
     [(''ETH'', [\<lparr>timestamp = 1, price = Fin 1, returns = Fin (- 1), std_dev = NaN\<rparr>,
                \<lparr>timestamp = 2, price = Fin 1, returns = Fin 0, std_dev = NaN\<rparr>,
                \<lparr>timestamp = 3, price = Fin 1, returns = Fin 1, std_dev = NaN\<rparr>]),
      (''DAI'', [\<lparr>timestamp = 1, price = Fin 1, returns = Fin 1, std_dev = NaN\<rparr>,
                \<lparr>timestamp = 2, price = Fin 1, returns = Fin (- 2), std_dev = NaN\<rparr>,
                \<lparr>timestamp = 3, price = Fin 1, returns = Fin 1, std_dev = NaN\<rparr>])]
     1 3 =
   (\<lparr>assets = [\<lparr>token_symbol = ''ETH'', balance = Fin 50, risk_contribution = Some (Fin (1 / 4))\<rparr>,
               \<lparr>token_symbol = ''DAI'', balance = Fin 50, risk_contribution = Some (Fin (3 / 4))\<rparr>],
     usd_total = Fin (- 100)\<rparr>, None)"
  by (simp add: matrix_eval risk_eval)

theorem fill_asset_risk_contributions_no_usd_total_guard_witness:
  "fill_asset_risk_contributions
     \<lparr>assets = [\<lparr>token_symbol = ''ETH'', balance = Fin 1, risk_contribution = None\<rparr>],
      usd_total = Fin 0\<rparr>
     [(''ETH'', [\<lparr>timestamp = 1, price = Fin 1, returns = Fin (- 1), std_dev = NaN\<rparr>,
                \<lparr>timestamp = 2, price = Fin 1, returns = Fin 0, std_dev = NaN\<rparr>,
                \<lparr>timestamp = 3, price = Fin 1, returns = Fin 1, std_dev = NaN\<rparr>])]
     1 3 =
   (\<lparr>assets = [\<lparr>token_symbol = ''ETH'', balance = Fin 1, risk_contribution = None\<rparr>],
     usd_total = Fin 0\<rparr>, Some AssertionError) \<and>
   fill_asset_risk_contributions
     \<lparr>assets = [\<lparr>token_symbol = ''ETH'', balance = Fin 1, risk_contribution = None\<rparr>],
      usd_total = Fin (- 1)\<rparr>
     [(''ETH'', [\<lparr>timestamp = 1, price = Fin 1, returns = Fin (- 1), std_dev = NaN\<rparr>,
                \<lparr>timestamp = 2, price = Fin 1, returns = Fin 0, std_dev = NaN\<rparr>,
                \<lparr>timestamp = 3, price = Fin 1, returns = Fin 1, std_dev = NaN\<rparr>])]
     1 3 =
   (\<lparr>assets = [\<lparr>token_symbol = ''ETH'', balance = Fin 1, risk_contribution = Some (Fin 1)\<rparr>],
     usd_total = Fin (- 1)\<rparr>, None)"
proof -
  let ?assets = "[\<lparr>token_symbol = ''ETH'', balance = Fin 1, risk_contribution = None\<rparr>]"
  let ?m = "[(''ETH'', [\<lparr>timestamp = 1, price = Fin 1, returns = Fin (- 1), std_dev = NaN\<rparr>,
                \<lparr>timestamp = 2, price = Fin 1, returns = Fin 0, std_dev = NaN\<rparr>,
                \<lparr>timestamp = 3, price = Fin 1, returns = Fin 1, std_dev = NaN\<rparr>])]"
  let ?rm = "\<lparr>columns = [''ETH''], rows = [(1, [Fin (- 1)]), (2, [Fin 0]), (3, [Fin 1])]\<rparr>"
  have m: "make_returns_matrix \<lparr>assets = ?assets, usd_total = Fin 0\<rparr> ?m 1 3 = Inr ?rm"
    by (simp add: matrix_eval)
  have "fill_asset_risk_contributions \<lparr>assets = ?assets, usd_total = Fin 0\<rparr> ?m 1 3 =
      (\<lparr>assets = ?assets, usd_total = Fin 0\<rparr>, Some AssertionError)"
    using fill_asset_risk_contributions_no_usd_total_guard
      [of "\<lparr>assets = ?assets, usd_total = Fin 0\<rparr>" ?m 1 3 ?rm] m
    by simp
  moreover have pos: "fill_asset_risk_contributions \<lparr>assets = ?assets, usd_total = Fin 1\<rparr> ?m 1 3 =
      (\<lparr>assets = [\<lparr>token_symbol = ''ETH'', balance = Fin 1, risk_contribution = Some (Fin 1)\<rparr>],
        usd_total = Fin 1\<rparr>, None)"
    by (simp add: matrix_eval risk_eval)
  have "fill_asset_risk_contributions \<lparr>assets = ?assets, usd_total = Fin (- 1)\<rparr> ?m 1 3 =
      (\<lparr>assets = [\<lparr>token_symbol = ''ETH'', balance = Fin 1, risk_contribution = Some (Fin 1)\<rparr>],
        usd_total = Fin (- 1)\<rparr>, None)"
    using fill_asset_risk_contributions_no_usd_total_guard
      [of "\<lparr>assets = ?assets, usd_total = Fin 1\<rparr>" ?m 1 3 _ 1]
    by (simp add: pos)
  ultimately show ?thesis by simp
qed

section \<open>The Returns Matrix Aligner: rectangular frames\<close>

lemma seed_rectangular: "seed items = Inr f \<Longrightarrow> rectangular f"
  by (auto simp: seed_def rectangular_def list_all_iff split: list.splits)

lemma merge_rectangular:
  "merge_on_timestamp matrix label right = Inr matrix' \<Longrightarrow> rectangular matrix \<Longrightarrow>
   rectangular matrix'"
  by (fastforce simp: merge_on_timestamp_def rectangular_def list_all_iff split: if_splits)

lemma reduce_rectangular:
  "reduce matrix items = Inr joined \<Longrightarrow> rectangular matrix \<Longrightarrow> rectangular joined"
proof (induction items arbitrary: matrix)
  case Nil
  then show ?case by simp
next
  case (Cons item items)
  obtain symbol hist where item: "item = (symbol, hist)" by (cases item)
  from Cons.prems(1) obtain matrix' where
    m: "merge_on_timestamp matrix symbol (timestamp_and_returns hist) = Inr matrix'" and
    r: "reduce matrix' items = Inr joined"
    by (auto simp: item reducer_on_symbol_and_hist_prices_def split: sum.splits)
  from Cons.IH [OF r merge_rectangular [OF m Cons.prems(2)]] show ?case .
qed

lemma length_filter_zip:
  "length xs = length ys \<Longrightarrow>
   length (filter (\<lambda>(c, v). P c) (zip xs ys)) = length (filter P xs)"
  by (induction xs ys rule: list_induct2) simp_all

lemma drop_column_rectangular:
  "drop_column label f = Inr f' \<Longrightarrow> rectangular f \<Longrightarrow> rectangular f'"
  by (fastforce simp: drop_column_def rectangular_def list_all_iff length_filter_zip
      split: if_splits)

lemma make_returns_matrix_rectangular:
  assumes "make_returns_matrix treasury augmented_token_hist_prices start end = Inr rm"
  shows "rectangular rm"
proof -
  let ?items = "hist_prices_items augmented_token_hist_prices start end"
  from assms obtain initial joined returns_matrix where
    s: "seed ?items = Inr initial" and
    r: "reduce initial ?items = Inr joined" and
    d: "drop_column ''returns'' joined = Inr returns_matrix" and
    e: "(case get_asset treasury ''ETH'' of Some _ \<Rightarrow> Inr returns_matrix
         | None \<Rightarrow> drop_column ''ETH'' returns_matrix) = Inr rm"
    by (auto simp: make_returns_matrix_def Let_def split: sum.splits)
  have "rectangular returns_matrix"
    using drop_column_rectangular [OF d] reduce_rectangular [OF r] seed_rectangular [OF s] by blast
  then show ?thesis
    using e drop_column_rectangular [of "''ETH''" returns_matrix rm]
    by (cases "get_asset treasury ''ETH''") auto
qed

end
